theory Spec2Isabelle
  imports Complex_Main "HOL-Library.Word"
begin

section \<open>vtkLocationSelector: data model\<close>

text \<open>
  The embedding follows \<^verbatim>\<open>Filters/Extraction/vtkLocationSelector.cxx\<close>.

  \<^item> \<^verbatim>\<open>vtkIdType\<close> is a signed integer; no arithmetic of the file can overflow it
    (ids are only compared, and the loop counters are bounded by a tuple count), so it
    is \<open>int\<close>.
  \<^item> \<^verbatim>\<open>double\<close> is the type parameter \<open>'r\<close>: the two matchers only multiply the
    radius with itself and compare with \<open>>\<close>, so every result below that is stated
    for \<open>'r\<close> holds for each interpretation of \<open>*\<close> and \<open><\<close>, the IEEE one
    included (no law of an ordered field is used).  A model of the rounded arithmetic of
    \<^verbatim>\<open>double\<close> is the type \<open>double\<close> below.
  \<^item> A 3-d location (\<^verbatim>\<open>double location[3]\<close>, \<^verbatim>\<open>double* x\<close>) is the list of its
    components.
  \<^item> The insidedness array is a one-component \<^verbatim>\<open>vtkSignedCharArray\<close>: the list of
    its values, whose length is its number of tuples.  The accessors used by the file
    (\<^verbatim>\<open>GetPointer\<close> + \<^verbatim>\<open>std::fill_n\<close>, \<^verbatim>\<open>SetTypedComponent\<close>, \<^verbatim>\<open>SetValue\<close>) do no
    range check in C++; a write outside the array is undefined behaviour and is the
    error value \<open>OutOfBounds\<close> here.
\<close>

type_synonym vtkIdType = int

type_synonym vtkSignedCharArray = "8 word list"

datatype error = AssertionFailed | OutOfBounds

text \<open>
  \<^verbatim>\<open>vtkDataArray\<close>: the selection list, a sequence of tuples.  \<^verbatim>\<open>GetTuple(i, location)\<close>
  copies tuple \<open>i\<close> into \<^verbatim>\<open>double location[3]\<close>; the matchers are only constructed
  by \<open>Initialize\<close>, over a list of 3 components, so the location is the tuple.
\<close>

record 'r vtkDataArray =
  NumberOfComponents :: int
  Tuples :: "'r list list"

definition GetNumberOfTuples :: "'r vtkDataArray \<Rightarrow> vtkIdType" where
  "GetNumberOfTuples a = int (length (Tuples a))"

definition GetNumberOfComponents :: "'r vtkDataArray \<Rightarrow> int" where
  "GetNumberOfComponents a = NumberOfComponents a"

text \<open>
  \<^verbatim>\<open>vtkDataSet\<close>, as far as the file uses it.  The classes behind these calls are not
  part of the file, so each query is a field of the record (a parameter of every
  result below):
  \<^item> \<open>GetNumberOfPoints\<close>, \<open>FindPoint\<close>, \<open>GetPoint\<close>: the virtual methods of the dataset;
  \<^item> \<open>IsA_vtkPointSet\<close>: the result of \<^verbatim>\<open>dataset->IsA("vtkPointSet")\<close>;
  \<^item> \<open>FindClosestPointWithinRadius\<close>: the query of the \<^verbatim>\<open>vtkStaticPointLocator\<close>
    built on the dataset (radius, location; the output \<^verbatim>\<open>dist2\<close> is never read);
  \<^item> \<open>FindCell\<close>: the query of the \<^verbatim>\<open>vtkStaticCellLocator\<close> built on the dataset.
\<close>

record 'r vtkDataSet =
  GetNumberOfPoints :: vtkIdType
  IsA_vtkPointSet :: bool
  FindPoint :: "'r list \<Rightarrow> vtkIdType"
  GetPoint :: "vtkIdType \<Rightarrow> 'r list"
  FindClosestPointWithinRadius :: "'r \<Rightarrow> 'r list \<Rightarrow> vtkIdType"
  FindCell :: "'r list \<Rightarrow> vtkIdType"

text \<open>
  A \<^verbatim>\<open>vtkDataObject*\<close> that is not null: either a dataset or some other data object
  (a table, a graph, ...), on which \<^verbatim>\<open>vtkDataSet::SafeDownCast\<close> gives null.
\<close>

datatype 'r vtkDataObject = DataSet "'r vtkDataSet" | OtherDataObject

fun vtkDataSet_SafeDownCast :: "'r vtkDataObject \<Rightarrow> 'r vtkDataSet option" where
  "vtkDataSet_SafeDownCast (DataSet ds) = Some ds"
| "vtkDataSet_SafeDownCast OtherDataObject = None"

subsection \<open>Writes to the insidedness array\<close>

text \<open>
  \<^verbatim>\<open>std::fill_n(first, n, v)\<close> writes \<open>v\<close> to the first \<open>n\<close> elements and does nothing
  when \<open>n \<le> 0\<close>.
\<close>

definition fill_n :: "'a list \<Rightarrow> int \<Rightarrow> 'a \<Rightarrow> error + 'a list" where
  "fill_n arr n v =
     (if n \<le> 0 then Inr arr
      else if int (length arr) < n then Inl OutOfBounds
      else Inr (replicate (nat n) v @ drop (nat n) arr))"

definition SetValue :: "'a list \<Rightarrow> vtkIdType \<Rightarrow> 'a \<Rightarrow> error + 'a list" where
  "SetValue arr valueIdx v =
     (if 0 \<le> valueIdx \<and> valueIdx < int (length arr)
      then Inr (arr[nat valueIdx := v]) else Inl OutOfBounds)"

text \<open>On a one-component array, component \<open>compIdx\<close> of tuple \<open>tupleIdx\<close> is value
  \<open>tupleIdx * 1 + compIdx\<close>.\<close>

definition SetTypedComponent :: "'a list \<Rightarrow> vtkIdType \<Rightarrow> int \<Rightarrow> 'a \<Rightarrow> error + 'a list" where
  "SetTypedComponent arr tupleIdx compIdx v = SetValue arr (tupleIdx * 1 + compIdx) v"

section \<open>The point matcher: vtkInternalsForPoints\<close>

text \<open>
  The candidate point id that one pass of the loop body computes for \<open>location\<close>
  (lines 82 to 99).  \<open>Distance2BetweenPoints\<close> stands for \<^verbatim>\<open>vtkMath::Distance2BetweenPoints\<close>,
  which the file calls and does not define: it is a parameter.
\<close>

definition Points_ptId ::
  "('r list \<Rightarrow> 'r list \<Rightarrow> 'r) \<Rightarrow> 'r vtkDataSet \<Rightarrow> ('r::{times,ord}) \<Rightarrow> 'r list \<Rightarrow> vtkIdType" where
  "Points_ptId Distance2BetweenPoints dataset radius location =
     (if IsA_vtkPointSet dataset
      then FindClosestPointWithinRadius dataset radius location
      else
        (let ptId = FindPoint dataset location in
         if ptId \<ge> 0 then
           (let x = GetPoint dataset ptId;
                distance = Distance2BetweenPoints x location
            in if distance > radius * radius then - 1 else ptId)
         else ptId))"

text \<open>The loop body (lines 79 to 104) on the current array.\<close>

definition Points_body ::
  "('r list \<Rightarrow> 'r list \<Rightarrow> 'r) \<Rightarrow> 'r vtkDataSet \<Rightarrow> ('r::{times,ord}) \<Rightarrow> 'r list
     \<Rightarrow> vtkSignedCharArray \<Rightarrow> error + vtkSignedCharArray" where
  "Points_body Distance2BetweenPoints dataset radius location insidednessArray =
     (let ptId = Points_ptId Distance2BetweenPoints dataset radius location in
      if ptId \<ge> 0 then SetTypedComponent insidednessArray ptId 0 1
      else Inr insidednessArray)"

text \<open>The loop over the locations, in the order of the selection list.\<close>

fun Points_loop ::
  "('r list \<Rightarrow> 'r list \<Rightarrow> 'r) \<Rightarrow> 'r vtkDataSet \<Rightarrow> ('r::{times,ord}) \<Rightarrow> 'r list list
     \<Rightarrow> vtkSignedCharArray \<Rightarrow> error + vtkSignedCharArray" where
  "Points_loop D dataset radius [] arr = Inr arr"
| "Points_loop D dataset radius (location # rest) arr =
     (case Points_body D dataset radius location arr of
        Inl e \<Rightarrow> Inl e
      | Inr arr' \<Rightarrow> Points_loop D dataset radius rest arr')"

text \<open>
  \<^verbatim>\<open>vtkInternalsForPoints::Execute\<close>.  The result is the returned flag and the array
  after the call.  (\<^verbatim>\<open>Modified()\<close> only stamps the array's modification time.)
\<close>

definition vtkInternalsForPoints_Execute ::
  "('r list \<Rightarrow> 'r list \<Rightarrow> 'r) \<Rightarrow> 'r vtkDataArray \<Rightarrow> ('r::{times,ord}) \<Rightarrow> 'r vtkDataSet
     \<Rightarrow> vtkSignedCharArray \<Rightarrow> error + (bool \<times> vtkSignedCharArray)" where
  "vtkInternalsForPoints_Execute D SelectionList SearchRadius dataset insidednessArray =
     (let numPoints = GetNumberOfPoints dataset in
      if numPoints \<le> 0 then Inr (False, insidednessArray)
      else
        (case fill_n insidednessArray numPoints 0 of
           Inl e \<Rightarrow> Inl e
         | Inr arr \<Rightarrow>
             (case Points_loop D dataset SearchRadius (Tuples SelectionList) arr of
                Inl e \<Rightarrow> Inl e
              | Inr arr' \<Rightarrow> Inr (True, arr'))))"

section \<open>The cell matcher: vtkInternalsForCells\<close>

definition Cells_body ::
  "'r vtkDataSet \<Rightarrow> vtkIdType \<Rightarrow> 'r list \<Rightarrow> vtkSignedCharArray \<Rightarrow> error + vtkSignedCharArray" where
  "Cells_body dataset numCells coords insidednessArray =
     (let cid = FindCell dataset coords in
      if cid \<ge> 0 \<and> cid < numCells then SetValue insidednessArray cid 1
      else Inr insidednessArray)"

fun Cells_loop ::
  "'r vtkDataSet \<Rightarrow> vtkIdType \<Rightarrow> 'r list list \<Rightarrow> vtkSignedCharArray \<Rightarrow> error + vtkSignedCharArray" where
  "Cells_loop dataset numCells [] arr = Inr arr"
| "Cells_loop dataset numCells (coords # rest) arr =
     (case Cells_body dataset numCells coords arr of
        Inl e \<Rightarrow> Inl e
      | Inr arr' \<Rightarrow> Cells_loop dataset numCells rest arr')"

definition vtkInternalsForCells_Execute ::
  "'r vtkDataArray \<Rightarrow> 'r \<Rightarrow> 'r vtkDataSet \<Rightarrow> vtkSignedCharArray
     \<Rightarrow> error + (bool \<times> vtkSignedCharArray)" where
  "vtkInternalsForCells_Execute SelectionList SearchRadius dataset insidednessArray =
     (let numCells = int (length insidednessArray) in
      case fill_n insidednessArray numCells 0 of
        Inl e \<Rightarrow> Inl e
      | Inr arr \<Rightarrow>
          (case Cells_loop dataset numCells (Tuples SelectionList) arr of
             Inl e \<Rightarrow> Inl e
           | Inr arr' \<Rightarrow> Inr (True, arr')))"

section \<open>The dispatcher: vtkLocationSelector\<close>

text \<open>The two subclasses of \<^verbatim>\<open>vtkInternals\<close>, each with the members of the base class.\<close>

datatype 'r vtkInternals =
  vtkInternalsForPoints "'r vtkDataArray" 'r
| vtkInternalsForCells "'r vtkDataArray" 'r

text \<open>The virtual call \<^verbatim>\<open>Internals->Execute(ds, insidednessArray)\<close>.\<close>

fun vtkInternals_Execute ::
  "('r list \<Rightarrow> 'r list \<Rightarrow> 'r) \<Rightarrow> ('r::{times,ord}) vtkInternals \<Rightarrow> 'r vtkDataSet
     \<Rightarrow> vtkSignedCharArray \<Rightarrow> error + (bool \<times> vtkSignedCharArray)" where
  "vtkInternals_Execute D (vtkInternalsForPoints selList searchRadius) ds arr =
     vtkInternalsForPoints_Execute D selList searchRadius ds arr"
| "vtkInternals_Execute D (vtkInternalsForCells selList searchRadius) ds arr =
     vtkInternalsForCells_Execute selList searchRadius ds arr"

text \<open>
  \<^verbatim>\<open>vtkSelectionNode\<close>, as far as \<^verbatim>\<open>Initialize\<close> reads it: \<open>SelectionList\<close> is the result
  of \<^verbatim>\<open>vtkDataArray::SafeDownCast(node->GetSelectionList())\<close> (\<open>None\<close> for a null
  pointer), \<open>EPSILON\<close> the value of that key of the properties when they have it.
\<close>

record 'r vtkSelectionNode =
  SelectionList :: "'r vtkDataArray option"
  ContentType :: int
  FieldType :: int
  EPSILON :: "'r option"

text \<open>
  The declarations of \<^verbatim>\<open>vtkSelectionNode\<close> and \<^verbatim>\<open>vtkDataObject\<close> that \<^verbatim>\<open>Initialize\<close>
  uses and the file does not contain: three enumerators and a static function.
\<close>

record vtkDeclarations =
  LOCATIONS :: int
  FIELD_ASSOCIATION_POINTS :: int
  FIELD_ASSOCIATION_CELLS :: int
  ConvertSelectionFieldToAttributeType :: "int \<Rightarrow> int"

text \<open>What \<^verbatim>\<open>vtkErrorMacro\<close> reports.\<close>

datatype diagnostic =
  Only3dLocations
| UnsupportedContentType int
| UnsupportedFieldType int

text \<open>
  The state of the selector that this file owns: the private member \<open>Internals\<close>
  (a \<^verbatim>\<open>std::unique_ptr\<close>, \<open>None\<close> when it is null).
\<close>

record 'r vtkLocationSelector =
  Internals :: "'r vtkInternals option"

definition vtkLocationSelector_new :: "'r vtkLocationSelector" where
  "vtkLocationSelector_new = \<lparr>Internals = None\<rparr>"

text \<open>
  \<^verbatim>\<open>vtkLocationSelector::Initialize\<close>: the selector after the call and the errors
  reported.  (\<^verbatim>\<open>Superclass::Initialize\<close> cannot reach the private \<open>Internals\<close>.)
\<close>

definition Initialize ::
  "vtkDeclarations \<Rightarrow> 'r vtkLocationSelector \<Rightarrow> ('r::zero) vtkSelectionNode \<Rightarrow> string
     \<Rightarrow> 'r vtkLocationSelector \<times> diagnostic list" where
  "Initialize decls self node insidednessArrayName =
     (let self = self\<lparr>Internals := None\<rparr> in
      case SelectionList node of
        None \<Rightarrow> (self, [])
      | Some selectionList \<Rightarrow>
          if GetNumberOfTuples selectionList = 0 then (self, [])
          else if GetNumberOfComponents selectionList \<noteq> 3 then (self, [Only3dLocations])
          else if ContentType node \<noteq> LOCATIONS decls
            then (self, [UnsupportedContentType (ContentType node)])
          else
            (let fieldType = FieldType node;
                 assoc = ConvertSelectionFieldToAttributeType decls fieldType;
                 radius = (case EPSILON node of Some eps \<Rightarrow> eps | None \<Rightarrow> 0)
             in if assoc = FIELD_ASSOCIATION_POINTS decls
                  then (self\<lparr>Internals := Some (vtkInternalsForPoints selectionList radius)\<rparr>, [])
                else if assoc = FIELD_ASSOCIATION_CELLS decls
                  then (self\<lparr>Internals := Some (vtkInternalsForCells selectionList radius)\<rparr>, [])
                else (self, [UnsupportedFieldType fieldType])))"

definition Finalize :: "'r vtkLocationSelector \<Rightarrow> 'r vtkLocationSelector" where
  "Finalize self = self\<lparr>Internals := None\<rparr>"

text \<open>
  \<^verbatim>\<open>vtkLocationSelector::ComputeSelectedElementsForBlock\<close>.  The two pointers are
  \<open>None\<close> when null, which the \<^verbatim>\<open>assert\<close> refuses.  The three block indices are not
  used.
\<close>

definition ComputeSelectedElementsForBlock ::
  "('r list \<Rightarrow> 'r list \<Rightarrow> 'r) \<Rightarrow> ('r::{times,ord}) vtkLocationSelector
     \<Rightarrow> 'r vtkDataObject option \<Rightarrow> vtkSignedCharArray option
     \<Rightarrow> error + (bool \<times> vtkSignedCharArray)" where
  "ComputeSelectedElementsForBlock D self input insidednessArray =
     (case (input, insidednessArray) of
        (Some inp, Some arr) \<Rightarrow>
          (let ds = vtkDataSet_SafeDownCast inp in
           case (Internals self, ds) of
             (Some internals, Some d) \<Rightarrow> vtkInternals_Execute D internals d arr
           | _ \<Rightarrow> Inr (False, arr))
      | _ \<Rightarrow> Inl AssertionFailed)"

section \<open>The collaborators, as the specification describes them\<close>

text \<open>
  Modelled from the spec: \<^verbatim>\<open>vtkMath::Distance2BetweenPoints\<close>, which the file calls
  and does not define.  The specification calls its result the squared distance between
  the candidate point's coordinates and the query location: the sum of the squares of
  the differences of the components.  This one is the squared distance in exact
  arithmetic, on real numbers; the one on \<^verbatim>\<open>double\<close>, with the rounding of each
  operation, is \<open>Distance2BetweenPoints_double\<close> below.
\<close>

definition Distance2BetweenPoints :: "real list \<Rightarrow> real list \<Rightarrow> real" where
  "Distance2BetweenPoints x y = (\<Sum>(a, b)\<leftarrow>zip x y. (a - b) * (a - b))"

text \<open>
  Modelled from the spec: the position, in the dataset's sequence of points, of the
  geometrically closest point to \<open>q\<close>.  The specification leaves the choice
  among equidistant points to the index; this one takes the first.
\<close>

fun ClosestPoint :: "real list list \<Rightarrow> real list \<Rightarrow> nat" where
  "ClosestPoint [] q = 0"
| "ClosestPoint (p # ps) q =
     (if ps = [] then 0
      else
        (let j = ClosestPoint ps q in
         if Distance2BetweenPoints p q \<le> Distance2BetweenPoints (ps ! j) q then 0
         else Suc j))"

text \<open>
  Modelled from the spec: a dataset given by the coordinates of its points, with the
  two point queries of section 6 of the specification, whose classes are not in the
  file.
  \<^item> The point lookup (\<open>FindPoint\<close>) returns the id of the geometrically closest point,
    with no radius awareness; \<open>GetPoint\<close> returns the coordinates of a point.
  \<^item> The nearest-point index (\<open>FindClosestPointWithinRadius\<close>) returns the nearest point
    when it lies within \<open>r\<close> (its distance is at most \<open>r\<close>: \<open>r\<close> is not negative and
    the squared distance is at most \<open>r * r\<close>) and "none" (\<open>- 1\<close>) otherwise.
  \<^item> \<open>explicit\<close> says whether the dataset has an explicit point store
    (\<^verbatim>\<open>IsA("vtkPointSet")\<close>).
  The dataset has no cells.
\<close>

definition PointsDataSet :: "bool \<Rightarrow> real list list \<Rightarrow> real vtkDataSet" where
  "PointsDataSet explicit pts =
     \<lparr>GetNumberOfPoints = int (length pts),
      IsA_vtkPointSet = explicit,
      FindPoint = (\<lambda>x. if pts = [] then - 1 else int (ClosestPoint pts x)),
      GetPoint = (\<lambda>i. if 0 \<le> i \<and> i < int (length pts) then pts ! nat i else []),
      FindClosestPointWithinRadius =
        (\<lambda>r x. if pts = [] then - 1
               else
                 (let c = ClosestPoint pts x in
                  if 0 \<le> r \<and> Distance2BetweenPoints (pts ! c) x \<le> r * r then int c
                  else - 1)),
      FindCell = (\<lambda>x. - 1)\<rparr>"

section \<open>Example inputs\<close>

text \<open>The four points of scenarios A and B of the specification.\<close>

definition ScenarioPoints :: "real list list" where
  "ScenarioPoints = [[0, 0, 0], [1, 0, 0], [0, 1, 0], [0, 0, 1]]"

text \<open>A selection list of two locations: one next to point 1, one far from every point.\<close>

definition ScenarioLocations :: "real vtkDataArray" where
  "ScenarioLocations = \<lparr>NumberOfComponents = 3, Tuples = [[1, 0, 0], [5, 5, 5]]\<rparr>"

text \<open>
  Scenario C: a dataset of one tetrahedron (the corner of the unit cube), whose
  containment query answers cell 0 inside it and \<open>- 1\<close> outside.
\<close>

fun TetraFindCell :: "real list \<Rightarrow> vtkIdType" where
  "TetraFindCell [x, y, z] = (if 0 \<le> x \<and> 0 \<le> y \<and> 0 \<le> z \<and> x + y + z \<le> 1 then 0 else - 1)"
| "TetraFindCell _ = - 1"

definition TetraDataSet :: "real vtkDataSet" where
  "TetraDataSet = (PointsDataSet True ScenarioPoints)\<lparr>FindCell := TetraFindCell\<rparr>"

definition TetraLocations :: "real vtkDataArray" where
  "TetraLocations = \<lparr>NumberOfComponents = 3, Tuples = [[1/4, 1/4, 1/4], [5, 5, 5]]\<rparr>"

text \<open>
  A dataset whose containment query answers an id outside every array: cell 7.
\<close>

definition StrayDataSet :: "real vtkDataSet" where
  "StrayDataSet = (PointsDataSet True ScenarioPoints)\<lparr>FindCell := (\<lambda>x. 7)\<rparr>"

text \<open>
  Values for the declarations that \<^verbatim>\<open>Initialize\<close> uses: \<open>LOCATIONS\<close> is 6, the field
  types 0 (cell) and 1 (point) convert to the associations 1 (cells) and 0 (points),
  every other field type to an association that is neither.
\<close>

definition ExampleDeclarations :: vtkDeclarations where
  "ExampleDeclarations =
     \<lparr>LOCATIONS = 6, FIELD_ASSOCIATION_POINTS = 0, FIELD_ASSOCIATION_CELLS = 1,
      ConvertSelectionFieldToAttributeType =
        (\<lambda>f. if f = 0 then 1 else if f = 1 then 0 else 7)\<rparr>"

text \<open>Scenario D: a selection node whose location array has 2 components per tuple.\<close>

definition ScenarioDNode :: "real vtkSelectionNode" where
  "ScenarioDNode =
     \<lparr>SelectionList = Some \<lparr>NumberOfComponents = 2, Tuples = [[0, 0]]\<rparr>,
      ContentType = 6, FieldType = 1, EPSILON = None\<rparr>"

text \<open>A valid node that selects points within 1/10 of the locations.\<close>

definition PointNode :: "real vtkSelectionNode" where
  "PointNode =
     \<lparr>SelectionList = Some ScenarioLocations,
      ContentType = 6, FieldType = 1, EPSILON = Some (1/10)\<rparr>"

section \<open>Double-precision arithmetic\<close>

text \<open>
  The file computes on \<^verbatim>\<open>double\<close>, the binary64 format of IEEE 754.  A finite number
  of the format is \<open>m * 2 ^ e\<close> for integers \<open>m\<close> and \<open>e\<close>, the significand \<open>m\<close> of
  at most 53 bits;
  \<open>Double m e\<close> is that number.  Each operation computes the exact result and rounds
  it to 53 bits, to the nearest number and to the even significand on a tie (the
  default rounding of IEEE 754).  The range of the exponent is not bounded here, so
  overflow to infinity, subnormal numbers and NaN are left out; the numbers are
  compared by their values.
\<close>

datatype double = Double int int

fun real_of_double :: "double \<Rightarrow> real" where
  "real_of_double (Double m e) =
     (if 0 \<le> e then of_int m * 2 ^ nat e else of_int m / 2 ^ nat (- e))"

text \<open>The number of bits of a positive integer.\<close>

function bit_length :: "int \<Rightarrow> nat" where
  "bit_length n = (if n \<le> 0 then 0 else Suc (bit_length (n div 2)))"
  by pat_completeness auto
termination
  by (relation "measure nat") auto

text \<open>The exact value \<open>m * 2 ^ e\<close>, rounded to a significand of 53 bits.\<close>

definition round_nearest_even :: "int \<Rightarrow> int \<Rightarrow> double" where
  "round_nearest_even m e =
     (let n = bit_length \<bar>m\<bar> in
      if n \<le> 53 then Double m e
      else
        (let k = n - 53;
             q = \<bar>m\<bar> div 2 ^ k;
             rest = \<bar>m\<bar> mod 2 ^ k;
             half = 2 ^ (k - 1);
             q' = (if half < rest \<or> (rest = half \<and> odd q) then q + 1 else q)
         in Double (sgn m * q') (e + int k)))"

text \<open>The exact sum of \<open>m1 * 2 ^ e1\<close> and \<open>m2 * 2 ^ e2\<close>, rounded.\<close>

definition round_sum :: "int \<Rightarrow> int \<Rightarrow> int \<Rightarrow> int \<Rightarrow> double" where
  "round_sum m1 e1 m2 e2 =
     (let e = min e1 e2
      in round_nearest_even (m1 * 2 ^ nat (e1 - e) + m2 * 2 ^ nat (e2 - e)) e)"

instantiation double :: "{plus, minus, times, preorder}"
begin

definition plus_double :: "double \<Rightarrow> double \<Rightarrow> double" where
  "a + b = (case (a, b) of (Double m1 e1, Double m2 e2) \<Rightarrow> round_sum m1 e1 m2 e2)"

definition minus_double :: "double \<Rightarrow> double \<Rightarrow> double" where
  "a - b = (case (a, b) of (Double m1 e1, Double m2 e2) \<Rightarrow> round_sum m1 e1 (- m2) e2)"

definition times_double :: "double \<Rightarrow> double \<Rightarrow> double" where
  "a * b = (case (a, b) of (Double m1 e1, Double m2 e2) \<Rightarrow> round_nearest_even (m1 * m2) (e1 + e2))"

definition less_eq_double :: "double \<Rightarrow> double \<Rightarrow> bool" where
  "a \<le> b \<longleftrightarrow> real_of_double a \<le> real_of_double b"

definition less_double :: "double \<Rightarrow> double \<Rightarrow> bool" where
  "a < b \<longleftrightarrow> real_of_double a < real_of_double b"

instance
  by standard (auto simp: less_eq_double_def less_double_def)

end


subsection \<open>An input on which the product of the radius with itself is rounded\<close>






section \<open>Properties of the array writes and of the two loops\<close>

subsection \<open>Array writes\<close>

lemma fill_n_whole: "fill_n arr (int (length arr)) v = Inr (replicate (length arr) v)"
  by (simp add: fill_n_def)

lemma SetTypedComponent_0: "SetTypedComponent arr i 0 v = SetValue arr i v"
  by (simp add: SetTypedComponent_def)

subsection \<open>The loop of the point matcher\<close>

lemma Points_body_eq:
  "Points_body D ds r loc arr =
     (let c = Points_ptId D ds r loc in
      if c < 0 then Inr arr
      else if c < int (length arr) then Inr (arr[nat c := 1])
      else Inl OutOfBounds)"
  by (simp add: Points_body_def SetTypedComponent_0 SetValue_def Let_def)

lemma nth_update_int:
  "0 \<le> c \<Longrightarrow> i < length arr \<Longrightarrow> arr[nat c := v] ! i = (if c = int i then v else arr ! i)"
  by (auto simp: nth_list_update)

lemma Points_loop_Inr:
  "Points_loop D ds r locs arr = Inr arr' \<Longrightarrow>
     length arr' = length arr \<and>
     (\<forall>loc\<in>set locs. Points_ptId D ds r loc < int (length arr)) \<and>
     (\<forall>i<length arr. arr' ! i =
        (if \<exists>loc\<in>set locs. Points_ptId D ds r loc = int i then 1 else arr ! i))"
proof (induction locs arbitrary: arr)
  case Nil
  then show ?case by simp
next
  case (Cons loc locs)
  let ?c = "Points_ptId D ds r loc"
  show ?case
  proof (cases "?c < 0")
    case True
    with Cons.prems have "Points_loop D ds r locs arr = Inr arr'"
      by (simp add: Points_body_eq)
    from Cons.IH [OF this] True show ?thesis by auto
  next
    case False
    with Cons.prems have inr: "?c < int (length arr)"
      and rest: "Points_loop D ds r locs (arr[nat ?c := 1]) = Inr arr'"
      by (auto simp: Points_body_eq Let_def split: if_splits)
    from Cons.IH [OF rest] have len: "length arr' = length arr"
      and rng: "\<forall>loc\<in>set locs. Points_ptId D ds r loc < int (length arr)"
      and nth: "\<forall>i<length arr. arr' ! i =
        (if \<exists>loc\<in>set locs. Points_ptId D ds r loc = int i then 1 else arr[nat ?c := 1] ! i)"
      by simp_all
    have "arr' ! i = (if \<exists>l\<in>set (loc # locs). Points_ptId D ds r l = int i then 1 else arr ! i)"
      if "i < length arr" for i
      using nth that False by (auto simp: nth_update_int)
    with len rng inr show ?thesis by simp
  qed
qed

lemma Points_loop_in_range:
  "\<forall>loc\<in>set locs. Points_ptId D ds r loc < int (length arr) \<Longrightarrow>
     \<exists>arr'. Points_loop D ds r locs arr = Inr arr'"
proof (induction locs arbitrary: arr)
  case Nil
  then show ?case by simp
next
  case (Cons loc locs)
  then show ?case by (simp add: Points_body_eq Let_def)
qed

lemma Points_loop_append:
  "Points_loop D ds r (xs @ ys) arr =
     (case Points_loop D ds r xs arr of Inl e \<Rightarrow> Inl e | Inr arr' \<Rightarrow> Points_loop D ds r ys arr')"
  by (induction xs arbitrary: arr) (auto split: sum.splits)

subsection \<open>The loop of the cell matcher\<close>

lemma Cells_body_eq:
  "Cells_body ds (int (length arr)) coords arr =
     (let cid = FindCell ds coords in
      if 0 \<le> cid \<and> cid < int (length arr) then Inr (arr[nat cid := 1]) else Inr arr)"
  by (simp add: Cells_body_def SetValue_def Let_def)

lemma Cells_loop_eq:
  "\<exists>arr'. Cells_loop ds (int (length arr)) locs arr = Inr arr' \<and> length arr' = length arr \<and>
     (\<forall>i<length arr. arr' ! i =
        (if \<exists>loc\<in>set locs. FindCell ds loc = int i then 1 else arr ! i))"
proof (induction locs arbitrary: arr)
  case Nil
  then show ?case by simp
next
  case (Cons loc locs)
  let ?c = "FindCell ds loc"
  show ?case
  proof (cases "0 \<le> ?c \<and> ?c < int (length arr)")
    case True
    from Cons.IH [of "arr[nat ?c := 1]"] obtain arr' where
      run: "Cells_loop ds (int (length arr)) locs (arr[nat ?c := 1]) = Inr arr'"
      and len: "length arr' = length arr"
      and nth: "\<forall>i<length arr. arr' ! i =
        (if \<exists>loc\<in>set locs. FindCell ds loc = int i then 1 else arr[nat ?c := 1] ! i)"
      by auto
    have "arr' ! i = (if \<exists>l\<in>set (loc # locs). FindCell ds l = int i then 1 else arr ! i)"
      if "i < length arr" for i
      using nth that True by (auto simp: nth_update_int)
    with run len True show ?thesis by (simp add: Cells_body_eq)
  next
    case False
    from Cons.IH [of arr] obtain arr' where
      run: "Cells_loop ds (int (length arr)) locs arr = Inr arr'"
      and len: "length arr' = length arr"
      and nth: "\<forall>i<length arr. arr' ! i =
        (if \<exists>loc\<in>set locs. FindCell ds loc = int i then 1 else arr ! i)"
      by auto
    have "arr' ! i = (if \<exists>l\<in>set (loc # locs). FindCell ds l = int i then 1 else arr ! i)"
      if "i < length arr" for i
      using nth that False by auto
    with run len False show ?thesis by (auto simp: Cells_body_eq)
  qed
qed

lemma Cells_loop_append:
  "Cells_loop ds n (xs @ ys) arr =
     (case Cells_loop ds n xs arr of Inl e \<Rightarrow> Inl e | Inr arr' \<Rightarrow> Cells_loop ds n ys arr')"
  by (induction xs arbitrary: arr) (auto split: sum.splits)

subsection \<open>The two Execute methods in terms of their loops\<close>

lemma Points_Execute_empty:
  "GetNumberOfPoints ds \<le> 0 \<Longrightarrow>
     vtkInternalsForPoints_Execute D sl r ds arr = Inr (False, arr)"
  by (simp add: vtkInternalsForPoints_Execute_def)

lemma Points_Execute_Inr:
  assumes "vtkInternalsForPoints_Execute D sl r ds arr = Inr (b, m)"
    and "0 < GetNumberOfPoints ds"
  shows "b \<and> GetNumberOfPoints ds \<le> int (length arr) \<and> length m = length arr \<and>
     Points_loop D ds r (Tuples sl)
       (replicate (nat (GetNumberOfPoints ds)) 0 @ drop (nat (GetNumberOfPoints ds)) arr) = Inr m"
  using assms
  by (auto simp: vtkInternalsForPoints_Execute_def fill_n_def Let_def
      dest!: Points_loop_Inr split: if_splits sum.splits)

lemma Points_Execute_nonempty:
  assumes "0 < GetNumberOfPoints ds" and "GetNumberOfPoints ds \<le> int (length arr)"
  shows "vtkInternalsForPoints_Execute D sl r ds arr =
     (case Points_loop D ds r (Tuples sl)
        (replicate (nat (GetNumberOfPoints ds)) 0 @ drop (nat (GetNumberOfPoints ds)) arr) of
        Inl e \<Rightarrow> Inl e | Inr m \<Rightarrow> Inr (True, m))"
  using assms by (simp add: vtkInternalsForPoints_Execute_def fill_n_def Let_def)

lemma Points_Execute_exact:
  assumes "0 < GetNumberOfPoints ds" and "int (length arr) = GetNumberOfPoints ds"
  shows "vtkInternalsForPoints_Execute D sl r ds arr =
     (case Points_loop D ds r (Tuples sl) (replicate (length arr) 0) of
        Inl e \<Rightarrow> Inl e | Inr m \<Rightarrow> Inr (True, m))"
proof -
  have "nat (GetNumberOfPoints ds) = length arr" using assms by linarith
  with assms show ?thesis by (simp add: Points_Execute_nonempty)
qed

lemma Cells_Execute_eq:
  "vtkInternalsForCells_Execute sl r ds arr =
     (case Cells_loop ds (int (length arr)) (Tuples sl) (replicate (length arr) 0) of
        Inl e \<Rightarrow> Inl e | Inr m \<Rightarrow> Inr (True, m))"
  by (simp add: vtkInternalsForCells_Execute_def fill_n_whole)

lemma Cells_Execute_result:
  "\<exists>m. vtkInternalsForCells_Execute sl r ds arr = Inr (True, m) \<and> length m = length arr \<and>
     (\<forall>i<length arr. m ! i = (if \<exists>loc\<in>set (Tuples sl). FindCell ds loc = int i then 1 else 0))"
proof -
  from Cells_loop_eq [of ds "replicate (length arr) 0" "Tuples sl"]
  obtain m where "Cells_loop ds (int (length arr)) (Tuples sl) (replicate (length arr) 0) = Inr m"
    and "length m = length arr"
    and "\<forall>i<length arr. m ! i =
      (if \<exists>loc\<in>set (Tuples sl). FindCell ds loc = int i then 1 else replicate (length arr) 0 ! i)"
    by auto
  then show ?thesis by (auto simp: Cells_Execute_eq)
qed

lemma Points_loop_writes_one:
  assumes "Points_loop D ds r locs arr = Inr arr'"
  shows "length arr' = length arr \<and> (\<forall>i<length arr. arr' ! i = arr ! i \<or> arr' ! i = 1)"
  using Points_loop_Inr [OF assms] by simp

lemma Cells_loop_writes_one:
  "Cells_loop ds n locs arr = Inr arr' \<Longrightarrow>
     length arr' = length arr \<and> (\<forall>i<length arr. arr' ! i = arr ! i \<or> arr' ! i = 1)"
proof (induction locs arbitrary: arr)
  case Nil
  then show ?case by simp
next
  case (Cons loc locs)
  from Cons.prems obtain a where step: "Cells_body ds n loc arr = Inr a"
    and rest: "Cells_loop ds n locs a = Inr arr'"
    by (auto split: sum.splits)
  from step have "a = arr \<or> (\<exists>c. a = arr[c := 1])"
    by (auto simp: Cells_body_def SetValue_def Let_def split: if_splits)
  moreover have "arr[c := 1] ! i = arr ! i \<or> arr[c := 1] ! i = 1" if "i < length arr" for c i
    using that by (cases "c = i") simp_all
  ultimately have "length a = length arr \<and> (\<forall>i<length arr. a ! i = arr ! i \<or> a ! i = 1)"
    by auto
  with Cons.IH [OF rest] show ?case by metis
qed

subsection \<open>Distances and radii in exact arithmetic\<close>


subsection \<open>The candidate of a location on the two paths\<close>




section \<open>The claims\<close>

text \<open>
  Claim C1.  On the lookup-based path of the point matcher (the dataset is not a
  \<^verbatim>\<open>vtkPointSet\<close>, so no locator is built), take a query location for which
  \<open>FindPoint\<close> returns a candidate id that is not negative.  The loop body leaves the
  array as it is (the candidate is rejected) exactly when the squared distance between
  the candidate's coordinates and the location is greater than the radius times itself;
  otherwise it writes 1 at the candidate's entry (a candidate past the end of the array
  would be a write out of bounds).  For the whole call, on an array of one entry per
  point and a lookup that answers ids below the number of points: the call returns
  true, and entry \<open>i\<close> is 1 exactly when some location has candidate \<open>i\<close> whose
  squared distance does not exceed the squared radius.
\<close>

theorem lookup_path_rejects_iff_too_far:
  fixes D :: "'r list \<Rightarrow> 'r list \<Rightarrow> 'r::{times,ord}"
  assumes "\<not> IsA_vtkPointSet ds"
  shows "(0 \<le> FindPoint ds loc \<longrightarrow>
            Points_body D ds r loc arr =
              (if D (GetPoint ds (FindPoint ds loc)) loc > r * r then Inr arr
               else if FindPoint ds loc < int (length arr)
                 then Inr (arr[nat (FindPoint ds loc) := 1])
               else Inl OutOfBounds)) \<and>
         (0 < GetNumberOfPoints ds \<and> int (length arr) = GetNumberOfPoints ds \<and>
          (\<forall>l\<in>set (Tuples sl). FindPoint ds l < GetNumberOfPoints ds) \<longrightarrow>
            (\<exists>m. vtkInternalsForPoints_Execute D sl r ds arr = Inr (True, m) \<and>
                 length m = length arr \<and>
                 (\<forall>i<length arr. (m ! i = 1) =
                    (\<exists>l\<in>set (Tuples sl). FindPoint ds l = int i \<and>
                       \<not> D (GetPoint ds (int i)) l > r * r))))"
proof (intro conjI impI)
  assume "0 \<le> FindPoint ds loc"
  with assms show "Points_body D ds r loc arr =
      (if D (GetPoint ds (FindPoint ds loc)) loc > r * r then Inr arr
       else if FindPoint ds loc < int (length arr)
         then Inr (arr[nat (FindPoint ds loc) := 1])
       else Inl OutOfBounds)"
    by (simp add: Points_body_eq Points_ptId_def Let_def)
next
  assume pre: "0 < GetNumberOfPoints ds \<and> int (length arr) = GetNumberOfPoints ds \<and>
    (\<forall>l\<in>set (Tuples sl). FindPoint ds l < GetNumberOfPoints ds)"
  let ?z = "replicate (length arr) (0 :: 8 word)"
  have cand: "Points_ptId D ds r l = int i \<longleftrightarrow>
      FindPoint ds l = int i \<and> \<not> D (GetPoint ds (int i)) l > r * r" for l i
    using assms by (auto simp: Points_ptId_def Let_def)
  have "Points_ptId D ds r l < int (length ?z)" if "l \<in> set (Tuples sl)" for l
    using pre that assms by (auto simp: Points_ptId_def Let_def)
  then obtain m where run: "Points_loop D ds r (Tuples sl) ?z = Inr m"
    using Points_loop_in_range [of "Tuples sl" D ds r ?z] by blast
  from Points_loop_Inr [OF run] have len: "length m = length arr"
    and nth: "\<forall>i<length arr. m ! i =
      (if \<exists>l\<in>set (Tuples sl). Points_ptId D ds r l = int i then 1 else ?z ! i)"
    by simp_all
  have "(m ! i = 1) = (\<exists>l\<in>set (Tuples sl). FindPoint ds l = int i \<and>
      \<not> D (GetPoint ds (int i)) l > r * r)" if "i < length arr" for i
    using nth that by (simp add: cand)
  moreover have "vtkInternalsForPoints_Execute D sl r ds arr = Inr (True, m)"
    using pre run by (simp add: Points_Execute_exact)
  ultimately show "\<exists>m. vtkInternalsForPoints_Execute D sl r ds arr = Inr (True, m) \<and>
      length m = length arr \<and>
      (\<forall>i<length arr. (m ! i = 1) =
         (\<exists>l\<in>set (Tuples sl). FindPoint ds l = int i \<and> \<not> D (GetPoint ds (int i)) l > r * r))"
    using len by blast
qed

text \<open>The theorem at a concrete input.\<close>

theorem lookup_path_rejects_iff_too_far_witness:
  "\<not> IsA_vtkPointSet (PointsDataSet False ScenarioPoints) \<and>
   0 \<le> FindPoint (PointsDataSet False ScenarioPoints) [1, 0, 0] \<and>
   Points_body Distance2BetweenPoints (PointsDataSet False ScenarioPoints) (1/10) [1, 0, 0]
     [0, 0, 0, 0] = Inr [0, 1, 0, 0] \<and>
   0 \<le> FindPoint (PointsDataSet False ScenarioPoints) [5, 5, 5] \<and>
   Points_body Distance2BetweenPoints (PointsDataSet False ScenarioPoints) (1/10) [5, 5, 5]
     [0, 0, 0, 0] = Inr [0, 0, 0, 0] \<and>
   vtkInternalsForPoints_Execute Distance2BetweenPoints ScenarioLocations (1/10)
     (PointsDataSet False ScenarioPoints) [5, 5, 5, 5] = Inr (True, [0, 1, 0, 0])"
proof -
  let ?ds = "PointsDataSet False ScenarioPoints"
  have path: "\<not> IsA_vtkPointSet ?ds" by (simp add: PointsDataSet_def)
  have near: "FindPoint ?ds [1, 0, 0] = 1" and far: "FindPoint ?ds [5, 5, 5] = 1"
    by (simp_all add: PointsDataSet_def ScenarioPoints_def Distance2BetweenPoints_def)
  have pt: "GetPoint ?ds 1 = [1, 0, 0]"
    by (simp add: PointsDataSet_def ScenarioPoints_def)
  have d_near: "Distance2BetweenPoints [1, 0, 0] [1, 0, 0] = 0"
    and d_far: "Distance2BetweenPoints [1, 0, 0] [5, 5, 5] = 66"
    by (simp_all add: Distance2BetweenPoints_def)
  have n: "GetNumberOfPoints ?ds = 4"
    by (simp add: PointsDataSet_def ScenarioPoints_def)
  have locs: "Tuples ScenarioLocations = [[1, 0, 0], [5, 5, 5]]"
    by (simp add: ScenarioLocations_def)
  from lookup_path_rejects_iff_too_far [OF path, of "[1, 0, 0]" Distance2BetweenPoints "1/10"
      "[0, 0, 0, 0]" ScenarioLocations]
  have one: "Points_body Distance2BetweenPoints ?ds (1/10) [1, 0, 0] [0, 0, 0, 0] = Inr [0, 1, 0, 0]"
    by (simp add: near pt d_near)
  from lookup_path_rejects_iff_too_far [OF path, of "[5, 5, 5]" Distance2BetweenPoints "1/10"
      "[0, 0, 0, 0]" ScenarioLocations]
  have two: "Points_body Distance2BetweenPoints ?ds (1/10) [5, 5, 5] [0, 0, 0, 0] = Inr [0, 0, 0, 0]"
    by (simp add: far pt d_far)
  have pre: "0 < GetNumberOfPoints ?ds \<and> int (length [5, 5, 5, 5 :: 8 word]) = GetNumberOfPoints ?ds \<and>
      (\<forall>l\<in>set (Tuples ScenarioLocations). FindPoint ?ds l < GetNumberOfPoints ?ds)"
    by (simp add: n locs near far)
  from lookup_path_rejects_iff_too_far [OF path, of "[1, 0, 0]" Distance2BetweenPoints "1/10"
      "[5, 5, 5, 5]" ScenarioLocations] pre
  obtain m where run: "vtkInternalsForPoints_Execute Distance2BetweenPoints ScenarioLocations (1/10)
      ?ds [5, 5, 5, 5] = Inr (True, m)"
    by blast
  have "vtkInternalsForPoints_Execute Distance2BetweenPoints ScenarioLocations (1/10)
      ?ds [5, 5, 5, 5] = Inr (True, [0, 1, 0, 0])"
    by code_simp
  with run path near far one two show ?thesis by simp
qed

text \<open>
  Claim C2.  The point matcher's Execute returns false and leaves the array as it was
  when the dataset has no point; whenever it returns, the flag says whether the dataset
  has at least one point; on a dataset with points it does return true when the array
  has room for the points and every candidate id is inside the array; and when no
  location has a candidate at all it still returns true, the entries of the points
  being 0.
\<close>

theorem point_matcher_returns_true_iff_nonempty:
  fixes D :: "'r list \<Rightarrow> 'r list \<Rightarrow> 'r::{times,ord}"
  shows "(GetNumberOfPoints ds \<le> 0 \<longrightarrow>
            vtkInternalsForPoints_Execute D sl r ds arr = Inr (False, arr)) \<and>
         (\<forall>b m. vtkInternalsForPoints_Execute D sl r ds arr = Inr (b, m) \<longrightarrow>
            b = (0 < GetNumberOfPoints ds)) \<and>
         (0 < GetNumberOfPoints ds \<and> GetNumberOfPoints ds \<le> int (length arr) \<and>
          (\<forall>loc\<in>set (Tuples sl). Points_ptId D ds r loc < int (length arr)) \<longrightarrow>
            (\<exists>m. vtkInternalsForPoints_Execute D sl r ds arr = Inr (True, m))) \<and>
         (0 < GetNumberOfPoints ds \<and> GetNumberOfPoints ds \<le> int (length arr) \<and>
          (\<forall>loc\<in>set (Tuples sl). Points_ptId D ds r loc < 0) \<longrightarrow>
            vtkInternalsForPoints_Execute D sl r ds arr =
              Inr (True, replicate (nat (GetNumberOfPoints ds)) 0 @
                           drop (nat (GetNumberOfPoints ds)) arr))"
proof (intro conjI impI allI)
  assume "GetNumberOfPoints ds \<le> 0"
  then show "vtkInternalsForPoints_Execute D sl r ds arr = Inr (False, arr)"
    by (rule Points_Execute_empty)
next
  fix b m
  assume run: "vtkInternalsForPoints_Execute D sl r ds arr = Inr (b, m)"
  show "b = (0 < GetNumberOfPoints ds)"
  proof (cases "0 < GetNumberOfPoints ds")
    case True
    with Points_Execute_Inr [OF run] show ?thesis by simp
  next
    case False
    with run show ?thesis by (simp add: Points_Execute_empty)
  qed
next
  let ?a = "replicate (nat (GetNumberOfPoints ds)) (0 :: 8 word) @ drop (nat (GetNumberOfPoints ds)) arr"
  assume pre: "0 < GetNumberOfPoints ds \<and> GetNumberOfPoints ds \<le> int (length arr) \<and>
    (\<forall>loc\<in>set (Tuples sl). Points_ptId D ds r loc < int (length arr))"
  then have "length ?a = length arr" by auto
  with pre obtain m where "Points_loop D ds r (Tuples sl) ?a = Inr m"
    using Points_loop_in_range [of "Tuples sl" D ds r ?a] by auto
  with pre show "\<exists>m. vtkInternalsForPoints_Execute D sl r ds arr = Inr (True, m)"
    by (simp add: Points_Execute_nonempty)
next
  let ?a = "replicate (nat (GetNumberOfPoints ds)) (0 :: 8 word) @ drop (nat (GetNumberOfPoints ds)) arr"
  assume pre: "0 < GetNumberOfPoints ds \<and> GetNumberOfPoints ds \<le> int (length arr) \<and>
    (\<forall>loc\<in>set (Tuples sl). Points_ptId D ds r loc < 0)"
  have "Points_loop D ds r locs a = Inr a" if "\<forall>loc\<in>set locs. Points_ptId D ds r loc < 0"
    for locs and a :: vtkSignedCharArray
    using that by (induction locs) (simp_all add: Points_body_eq)
  with pre have "Points_loop D ds r (Tuples sl) ?a = Inr ?a" by blast
  with pre show "vtkInternalsForPoints_Execute D sl r ds arr = Inr (True, ?a)"
    by (simp add: Points_Execute_nonempty)
qed

text \<open>The theorem at a concrete input.\<close>

theorem point_matcher_returns_true_iff_nonempty_witness:
  "vtkInternalsForPoints_Execute Distance2BetweenPoints ScenarioLocations (1/10)
     (PointsDataSet True []) [5, 5] = Inr (False, [5, 5]) \<and>
   0 < GetNumberOfPoints (PointsDataSet True ScenarioPoints) \<and>
   GetNumberOfPoints (PointsDataSet True ScenarioPoints) \<le> int (length [5, 5, 5, 5 :: 8 word]) \<and>
   vtkInternalsForPoints_Execute Distance2BetweenPoints ScenarioLocations (1/10)
     (PointsDataSet True ScenarioPoints) [5, 5, 5, 5] = Inr (True, [0, 1, 0, 0]) \<and>
   vtkInternalsForPoints_Execute Distance2BetweenPoints (ScenarioLocations\<lparr>Tuples := [[5, 5, 5]]\<rparr>)
     (1/10) (PointsDataSet True ScenarioPoints) [5, 5, 5, 5] = Inr (True, [0, 0, 0, 0])"
proof -
  let ?ds = "PointsDataSet True ScenarioPoints"
  let ?far = "ScenarioLocations\<lparr>Tuples := [[5, 5, 5]]\<rparr>"
  have none: "GetNumberOfPoints (PointsDataSet True ([] :: real list list)) \<le> 0"
    and n: "GetNumberOfPoints ?ds = 4"
    by (simp_all add: PointsDataSet_def ScenarioPoints_def)
  have near: "Points_ptId Distance2BetweenPoints ?ds (1/10) [1, 0, 0] = 1"
    and far: "Points_ptId Distance2BetweenPoints ?ds (1/10) [5, 5, 5] = - 1"
    by (simp_all add: Points_ptId_def PointsDataSet_def ScenarioPoints_def
        Distance2BetweenPoints_def)
  have locs: "Tuples ScenarioLocations = [[1, 0, 0], [5, 5, 5]]"
    by (simp add: ScenarioLocations_def)
  from point_matcher_returns_true_iff_nonempty [of "PointsDataSet True []"
      Distance2BetweenPoints ScenarioLocations "1/10" "[5, 5]"] none
  have empty: "vtkInternalsForPoints_Execute Distance2BetweenPoints ScenarioLocations (1/10)
     (PointsDataSet True []) [5, 5] = Inr (False, [5, 5])" by blast
  have room: "0 < GetNumberOfPoints ?ds \<and> GetNumberOfPoints ?ds \<le> int (length [5, 5, 5, 5 :: 8 word]) \<and>
      (\<forall>loc\<in>set (Tuples ScenarioLocations).
         Points_ptId Distance2BetweenPoints ?ds (1/10) loc < int (length [5, 5, 5, 5 :: 8 word]))"
    by (simp add: n locs near far)
  with point_matcher_returns_true_iff_nonempty [of ?ds Distance2BetweenPoints ScenarioLocations
      "1/10" "[5, 5, 5, 5]"]
  obtain m where "vtkInternalsForPoints_Execute Distance2BetweenPoints ScenarioLocations (1/10)
      ?ds [5, 5, 5, 5] = Inr (True, m)"
    by blast
  moreover have "vtkInternalsForPoints_Execute Distance2BetweenPoints ScenarioLocations (1/10)
      ?ds [5, 5, 5, 5] = Inr (True, [0, 1, 0, 0])"
    by code_simp
  ultimately have match: "vtkInternalsForPoints_Execute Distance2BetweenPoints ScenarioLocations
      (1/10) ?ds [5, 5, 5, 5] = Inr (True, [0, 1, 0, 0])"
    by simp
  have "0 < GetNumberOfPoints ?ds \<and> GetNumberOfPoints ?ds \<le> int (length [5, 5, 5, 5 :: 8 word]) \<and>
      (\<forall>loc\<in>set (Tuples ?far). Points_ptId Distance2BetweenPoints ?ds (1/10) loc < 0)"
    by (simp add: n far)
  with point_matcher_returns_true_iff_nonempty [of ?ds Distance2BetweenPoints ?far
      "1/10" "[5, 5, 5, 5]"]
  have "vtkInternalsForPoints_Execute Distance2BetweenPoints ?far (1/10) ?ds [5, 5, 5, 5] =
      Inr (True, replicate (nat (GetNumberOfPoints ?ds)) 0 @ drop (nat (GetNumberOfPoints ?ds))
        [5, 5, 5, 5])"
    by blast
  then have nomatch: "vtkInternalsForPoints_Execute Distance2BetweenPoints ?far (1/10) ?ds
      [5, 5, 5, 5] = Inr (True, [0, 0, 0, 0])"
    by (simp add: n numeral_eq_Suc)
  from empty match nomatch n show ?thesis by simp
qed

text \<open>
  Claim C3.  In the cell matcher, one pass of the loop body writes 1 at the cell id
  that \<open>FindCell\<close> returns when that id is at least 0 and less than the number of
  entries of the array, and leaves the array unchanged otherwise.  The whole call never
  writes out of bounds (it returns, with an array of the same length), and entry \<open>i\<close>
  is 1 exactly when some location's cell id is \<open>i\<close>, and 0 otherwise.
\<close>

theorem cell_matcher_writes_only_in_range:
  "Cells_body ds (int (length arr)) coords arr =
     (if 0 \<le> FindCell ds coords \<and> FindCell ds coords < int (length arr)
      then Inr (arr[nat (FindCell ds coords) := 1]) else Inr arr) \<and>
   (\<exists>m. vtkInternalsForCells_Execute sl r ds arr = Inr (True, m) \<and> length m = length arr \<and>
      (\<forall>i<length arr. m ! i =
         (if \<exists>loc\<in>set (Tuples sl). FindCell ds loc = int i then 1 else 0)))"
  using Cells_Execute_result [of sl r ds arr] by (simp add: Cells_body_eq Let_def)

text \<open>The theorem at a concrete input.\<close>

theorem cell_matcher_writes_only_in_range_witness:
  "Cells_body StrayDataSet (int (length [5 :: 8 word])) [1/4, 1/4, 1/4] [5] = Inr [5] \<and>
   Cells_body TetraDataSet (int (length [5 :: 8 word])) [1/4, 1/4, 1/4] [5] = Inr [1] \<and>
   vtkInternalsForCells_Execute TetraLocations 0 StrayDataSet [5] = Inr (True, [0])"
proof -
  have stray: "FindCell StrayDataSet loc = 7" for loc
    by (simp add: StrayDataSet_def)
  have tetra: "FindCell TetraDataSet [1/4, 1/4, 1/4] = 0"
    by (simp add: TetraDataSet_def)
  from cell_matcher_writes_only_in_range [of StrayDataSet "[5]" "[1/4, 1/4, 1/4]" TetraLocations 0]
  obtain m where one: "Cells_body StrayDataSet (int (length [5 :: 8 word])) [1/4, 1/4, 1/4] [5] = Inr [5]"
    and run: "vtkInternalsForCells_Execute TetraLocations 0 StrayDataSet [5] = Inr (True, m)"
    and len: "length m = 1" and nth: "m ! 0 = 0"
    by (auto simp: stray)
  from len nth have "m = [0]" by (cases m) auto
  moreover
  from cell_matcher_writes_only_in_range [of TetraDataSet "[5]" "[1/4, 1/4, 1/4]" TetraLocations 0]
  have "Cells_body TetraDataSet (int (length [5 :: 8 word])) [1/4, 1/4, 1/4] [5] = Inr [1]"
    by (simp add: tetra)
  ultimately show ?thesis using one run by simp
qed

text \<open>
  Claim C4.  When the location array of the selection node has a number of components
  other than 3, or the content type is not \<open>LOCATIONS\<close>, or the field type converts
  to an association that is neither points nor cells, \<open>Initialize\<close> leaves
  \<open>Internals\<close> unset: no matcher is constructed.
\<close>

theorem invalid_specification_leaves_dispatcher_disabled:
  assumes "(\<exists>selectionList. SelectionList node = Some selectionList \<and>
              GetNumberOfComponents selectionList \<noteq> 3) \<or>
           ContentType node \<noteq> LOCATIONS decls \<or>
           (ConvertSelectionFieldToAttributeType decls (FieldType node)
                \<noteq> FIELD_ASSOCIATION_POINTS decls \<and>
            ConvertSelectionFieldToAttributeType decls (FieldType node)
                \<noteq> FIELD_ASSOCIATION_CELLS decls)"
  shows "Internals (fst (Initialize decls self node insidednessArrayName)) = None"
  using assms by (auto simp: Initialize_def Let_def split: option.splits)

text \<open>The theorem at a concrete input.\<close>

theorem invalid_specification_leaves_dispatcher_disabled_witness:
  "SelectionList ScenarioDNode = Some \<lparr>NumberOfComponents = 2, Tuples = [[0, 0]]\<rparr> \<and>
   GetNumberOfComponents \<lparr>NumberOfComponents = 2, Tuples = [[0 :: real, 0]]\<rparr> \<noteq> 3 \<and>
   Internals (fst (Initialize ExampleDeclarations vtkLocationSelector_new ScenarioDNode ''mask''))
     = None \<and>
   ContentType (PointNode\<lparr>ContentType := 4\<rparr>) \<noteq> LOCATIONS ExampleDeclarations \<and>
   Internals (fst (Initialize ExampleDeclarations vtkLocationSelector_new
     (PointNode\<lparr>ContentType := 4\<rparr>) ''mask'')) = None \<and>
   ConvertSelectionFieldToAttributeType ExampleDeclarations (FieldType (PointNode\<lparr>FieldType := 4\<rparr>))
     \<noteq> FIELD_ASSOCIATION_POINTS ExampleDeclarations \<and>
   ConvertSelectionFieldToAttributeType ExampleDeclarations (FieldType (PointNode\<lparr>FieldType := 4\<rparr>))
     \<noteq> FIELD_ASSOCIATION_CELLS ExampleDeclarations \<and>
   Internals (fst (Initialize ExampleDeclarations vtkLocationSelector_new
     (PointNode\<lparr>FieldType := 4\<rparr>) ''mask'')) = None"
proof -
  have sel: "SelectionList ScenarioDNode = Some \<lparr>NumberOfComponents = 2, Tuples = [[0, 0]]\<rparr>"
    by (simp add: ScenarioDNode_def)
  have comps: "GetNumberOfComponents \<lparr>NumberOfComponents = 2, Tuples = [[0 :: real, 0]]\<rparr> \<noteq> 3"
    by (simp add: GetNumberOfComponents_def)
  have content: "ContentType (PointNode\<lparr>ContentType := 4\<rparr>) \<noteq> LOCATIONS ExampleDeclarations"
    by (simp add: ExampleDeclarations_def)
  have field: "ConvertSelectionFieldToAttributeType ExampleDeclarations
        (FieldType (PointNode\<lparr>FieldType := 4\<rparr>)) \<noteq> FIELD_ASSOCIATION_POINTS ExampleDeclarations \<and>
      ConvertSelectionFieldToAttributeType ExampleDeclarations
        (FieldType (PointNode\<lparr>FieldType := 4\<rparr>)) \<noteq> FIELD_ASSOCIATION_CELLS ExampleDeclarations"
    by (simp add: ExampleDeclarations_def)
  from sel comps have "\<exists>selectionList. SelectionList ScenarioDNode = Some selectionList \<and>
      GetNumberOfComponents selectionList \<noteq> 3"
    by blast
  then have one: "Internals (fst (Initialize ExampleDeclarations vtkLocationSelector_new
      ScenarioDNode ''mask'')) = None"
    by (rule invalid_specification_leaves_dispatcher_disabled [OF disjI1])
  from content have two: "Internals (fst (Initialize ExampleDeclarations vtkLocationSelector_new
      (PointNode\<lparr>ContentType := 4\<rparr>) ''mask'')) = None"
    by (rule invalid_specification_leaves_dispatcher_disabled [OF disjI2, OF disjI1])
  from field have three: "Internals (fst (Initialize ExampleDeclarations vtkLocationSelector_new
      (PointNode\<lparr>FieldType := 4\<rparr>) ''mask'')) = None"
    by (rule invalid_specification_leaves_dispatcher_disabled [OF disjI2, OF disjI2])
  from sel comps content field one two three show ?thesis by blast
qed

text \<open>
  Claim C5.  When no matcher was constructed (\<open>Internals\<close> is unset),
  \<open>ComputeSelectedElementsForBlock\<close> returns false on every data object and every
  array (neither null, as the assertion demands), and the array is exactly the one
  that the caller provided.
\<close>

theorem disabled_evaluate_is_noop:
  "Internals self = None \<Longrightarrow>
     ComputeSelectedElementsForBlock D self (Some input) (Some arr) = Inr (False, arr)"
  by (simp add: ComputeSelectedElementsForBlock_def)

text \<open>The theorem at a concrete input.\<close>

theorem disabled_evaluate_is_noop_witness:
  "Internals (fst (Initialize ExampleDeclarations vtkLocationSelector_new ScenarioDNode ''mask''))
     = None \<and>
   ComputeSelectedElementsForBlock Distance2BetweenPoints
     (fst (Initialize ExampleDeclarations vtkLocationSelector_new ScenarioDNode ''mask''))
     (Some (DataSet (PointsDataSet True ScenarioPoints))) (Some [5, 5, 5, 5])
     = Inr (False, [5, 5, 5, 5])"
proof -
  have off: "Internals (fst (Initialize ExampleDeclarations vtkLocationSelector_new
      ScenarioDNode ''mask'')) = None"
    by (simp add: Initialize_def ScenarioDNode_def GetNumberOfTuples_def GetNumberOfComponents_def)
  from disabled_evaluate_is_noop [OF off] off show ?thesis by simp
qed




text \<open>
  Claim C7.  In both matchers, the loop only ever writes 1: from whatever array a run
  of the loop starts, each entry of the array it ends with is either the entry it
  started with or 1.  For a whole call of Execute: compare the array after the first
  locations \<open>xs\<close> of the selection list (the call on that prefix) with the array after
  all of them, \<open>xs @ ys\<close>; the arrays have the same length, and each entry is
  either unchanged or 1.  So an entry that is 1 is never set back to 0 by the call.
\<close>

theorem mask_entries_only_change_to_one:
  fixes D :: "'r list \<Rightarrow> 'r list \<Rightarrow> 'r::{times,ord}"
  shows "(Points_loop D ds r locs a = Inr a' \<longrightarrow>
            length a' = length a \<and> (\<forall>i<length a. a' ! i = a ! i \<or> a' ! i = 1)) \<and>
         (Cells_loop ds n locs a = Inr a'' \<longrightarrow>
            length a'' = length a \<and> (\<forall>i<length a. a'' ! i = a ! i \<or> a'' ! i = 1)) \<and>
         (vtkInternalsForPoints_Execute D (sl\<lparr>Tuples := xs @ ys\<rparr>) r ds arr = Inr (b, m) \<longrightarrow>
            (\<exists>m0. vtkInternalsForPoints_Execute D (sl\<lparr>Tuples := xs\<rparr>) r ds arr = Inr (b, m0) \<and>
               length m0 = length m \<and> (\<forall>i<length m. m ! i = m0 ! i \<or> m ! i = 1))) \<and>
         (vtkInternalsForCells_Execute (sl\<lparr>Tuples := xs @ ys\<rparr>) r ds arr = Inr (c, k) \<longrightarrow>
            (\<exists>k0. vtkInternalsForCells_Execute (sl\<lparr>Tuples := xs\<rparr>) r ds arr = Inr (c, k0) \<and>
               length k0 = length k \<and> (\<forall>i<length k. k ! i = k0 ! i \<or> k ! i = 1)))"
proof -
  have points_loop: "Points_loop D ds r locs a = Inr a' \<longrightarrow>
      length a' = length a \<and> (\<forall>i<length a. a' ! i = a ! i \<or> a' ! i = 1)"
    using Points_loop_writes_one [of D ds r locs a a'] by blast
  have cells_loop: "Cells_loop ds n locs a = Inr a'' \<longrightarrow>
      length a'' = length a \<and> (\<forall>i<length a. a'' ! i = a ! i \<or> a'' ! i = 1)"
    using Cells_loop_writes_one [of ds n locs a a''] by blast
  have points: "\<exists>m0. vtkInternalsForPoints_Execute D (sl\<lparr>Tuples := xs\<rparr>) r ds arr = Inr (b, m0) \<and>
      length m0 = length m \<and> (\<forall>i<length m. m ! i = m0 ! i \<or> m ! i = 1)"
    if run: "vtkInternalsForPoints_Execute D (sl\<lparr>Tuples := xs @ ys\<rparr>) r ds arr = Inr (b, m)"
  proof (cases "0 < GetNumberOfPoints ds")
    case False
    with run show ?thesis by (simp add: Points_Execute_empty)
  next
    case True
    let ?z = "replicate (nat (GetNumberOfPoints ds)) (0 :: 8 word) @
      drop (nat (GetNumberOfPoints ds)) arr"
    from Points_Execute_Inr [OF run True] have b: b
      and fits: "GetNumberOfPoints ds \<le> int (length arr)"
      and loop: "Points_loop D ds r (xs @ ys) ?z = Inr m"
      by simp_all
    from loop obtain m0 where first: "Points_loop D ds r xs ?z = Inr m0"
      and second: "Points_loop D ds r ys m0 = Inr m"
      by (auto simp: Points_loop_append split: sum.splits)
    from first True fits b
    have "vtkInternalsForPoints_Execute D (sl\<lparr>Tuples := xs\<rparr>) r ds arr = Inr (b, m0)"
      by (simp add: Points_Execute_nonempty)
    with Points_loop_writes_one [OF second] show ?thesis by simp
  qed
  have cells: "\<exists>k0. vtkInternalsForCells_Execute (sl\<lparr>Tuples := xs\<rparr>) r ds arr = Inr (c, k0) \<and>
      length k0 = length k \<and> (\<forall>i<length k. k ! i = k0 ! i \<or> k ! i = 1)"
    if run: "vtkInternalsForCells_Execute (sl\<lparr>Tuples := xs @ ys\<rparr>) r ds arr = Inr (c, k)"
  proof -
    let ?z = "replicate (length arr) (0 :: 8 word)"
    from run have c: c and loop: "Cells_loop ds (int (length arr)) (xs @ ys) ?z = Inr k"
      by (auto simp: Cells_Execute_eq split: sum.splits)
    from loop obtain k0 where first: "Cells_loop ds (int (length arr)) xs ?z = Inr k0"
      and second: "Cells_loop ds (int (length arr)) ys k0 = Inr k"
      by (auto simp: Cells_loop_append split: sum.splits)
    from first c have "vtkInternalsForCells_Execute (sl\<lparr>Tuples := xs\<rparr>) r ds arr = Inr (c, k0)"
      by (simp add: Cells_Execute_eq)
    with Cells_loop_writes_one [OF second] show ?thesis by simp
  qed
  from points_loop cells_loop points cells show ?thesis by blast
qed

text \<open>The theorem at a concrete input.\<close>

theorem mask_entries_only_change_to_one_witness:
  "Points_loop Distance2BetweenPoints (PointsDataSet True ScenarioPoints) (1/10)
     [[0, 0, 1], [5, 5, 5]] [0, 1, 0, 0] = Inr [0, 1, 0, 1] \<and>
   Cells_loop TetraDataSet 1 [[5, 5, 5], [1/4, 1/4, 1/4]] [1] = Inr [1] \<and>
   vtkInternalsForPoints_Execute Distance2BetweenPoints
     (ScenarioLocations\<lparr>Tuples := [[1, 0, 0]] @ [[0, 0, 1]]\<rparr>) (1/10)
     (PointsDataSet True ScenarioPoints) [5, 5, 5, 5] = Inr (True, [0, 1, 0, 1]) \<and>
   vtkInternalsForPoints_Execute Distance2BetweenPoints
     (ScenarioLocations\<lparr>Tuples := [[1, 0, 0]]\<rparr>) (1/10)
     (PointsDataSet True ScenarioPoints) [5, 5, 5, 5] = Inr (True, [0, 1, 0, 0]) \<and>
   vtkInternalsForCells_Execute (TetraLocations\<lparr>Tuples := [[1/4, 1/4, 1/4]] @ [[5, 5, 5]]\<rparr>) 0
     TetraDataSet [5] = Inr (True, [1]) \<and>
   vtkInternalsForCells_Execute (TetraLocations\<lparr>Tuples := [[1/4, 1/4, 1/4]]\<rparr>) 0
     TetraDataSet [5] = Inr (True, [1])"
proof -
  let ?ds = "PointsDataSet True ScenarioPoints"
  have ploop: "Points_loop Distance2BetweenPoints ?ds (1/10) [[0, 0, 1], [5, 5, 5]] [0, 1, 0, 0]
      = Inr [0, 1, 0, 1]"
    by code_simp
  have cloop: "Cells_loop TetraDataSet 1 [[5, 5, 5], [1/4, 1/4, 1/4]] [1] = Inr [1]"
    by code_simp
  have all: "vtkInternalsForPoints_Execute Distance2BetweenPoints
     (ScenarioLocations\<lparr>Tuples := [[1, 0, 0]] @ [[0, 0, 1]]\<rparr>) (1/10) ?ds [5, 5, 5, 5]
       = Inr (True, [0, 1, 0, 1])"
    by code_simp
  have pre: "vtkInternalsForPoints_Execute Distance2BetweenPoints
     (ScenarioLocations\<lparr>Tuples := [[1, 0, 0]]\<rparr>) (1/10) ?ds [5, 5, 5, 5]
       = Inr (True, [0, 1, 0, 0])"
    by code_simp
  have call: "vtkInternalsForCells_Execute
     (TetraLocations\<lparr>Tuples := [[1/4, 1/4, 1/4]] @ [[5, 5, 5]]\<rparr>) 0 TetraDataSet [5]
       = Inr (True, [1])"
    by code_simp
  have cpre: "vtkInternalsForCells_Execute
     (TetraLocations\<lparr>Tuples := [[1/4, 1/4, 1/4]]\<rparr>) 0 TetraDataSet [5] = Inr (True, [1])"
    by code_simp
  note inst = mask_entries_only_change_to_one [where D = Distance2BetweenPoints
      and ds = ?ds and r = "1/10" and locs = "[[0, 0, 1], [5, 5, 5]]" and a = "[0, 1, 0, 0]"
      and a' = "[0, 1, 0, 1]"
      and sl = ScenarioLocations and xs = "[[1, 0, 0]]" and ys = "[[0, 0, 1]]"
      and arr = "[5, 5, 5, 5]" and b = True and m = "[0, 1, 0, 1]"]
  from inst ploop have same: "length [0, 1, 0, 1 :: 8 word] = length [0, 1, 0, 0 :: 8 word]"
    by blast
  from inst all obtain m0 where first: "vtkInternalsForPoints_Execute Distance2BetweenPoints
     (ScenarioLocations\<lparr>Tuples := [[1, 0, 0]]\<rparr>) (1/10) ?ds [5, 5, 5, 5] = Inr (True, m0)"
    by blast
  note inst' = mask_entries_only_change_to_one [where D = Distance2BetweenPoints
      and ds = TetraDataSet and r = 0 and n = 1 and locs = "[[5, 5, 5], [1/4, 1/4, 1/4]]"
      and a = "[1]" and a'' = "[1]"
      and sl = TetraLocations and xs = "[[1/4, 1/4, 1/4]]" and ys = "[[5, 5, 5]]"
      and arr = "[5]" and c = True and k = "[1]"]
  from inst' call obtain k0 where cfirst: "vtkInternalsForCells_Execute
     (TetraLocations\<lparr>Tuples := [[1/4, 1/4, 1/4]]\<rparr>) 0 TetraDataSet [5] = Inr (True, k0)"
    by blast
  from same first cfirst ploop cloop all pre call cpre show ?thesis by simp
qed

text \<open>
  Claim C8.  The cell matcher's Execute has no early exit and no path that leaves the
  array alone: on every dataset (every number of points, every answer of the
  containment query on the index it builds), every selection list, every radius and
  every array it returns true, and the array it returns is the one that the fill and
  the loop over all locations produce: entry \<open>i\<close> is 1 when some location lies in
  cell \<open>i\<close> and 0 otherwise, whatever the array held before.  On a dataset with no
  cell (an array of no entry) it returns true as well.
\<close>

theorem cell_matcher_always_returns_true:
  "vtkInternalsForCells_Execute sl r ds arr =
     Inr (True, map (\<lambda>i. if \<exists>loc\<in>set (Tuples sl). FindCell ds loc = int i then 1 else 0)
                  [0..<length arr]) \<and>
   vtkInternalsForCells_Execute sl r ds [] = Inr (True, [])"
proof -
  let ?marks = "map (\<lambda>i. if \<exists>loc\<in>set (Tuples sl). FindCell ds loc = int i then 1 else 0)
    [0..<length arr]"
  from Cells_Execute_result [of sl r ds arr] obtain m where
    run: "vtkInternalsForCells_Execute sl r ds arr = Inr (True, m)"
    and len: "length m = length arr"
    and nth: "\<forall>i<length arr. m ! i =
      (if \<exists>loc\<in>set (Tuples sl). FindCell ds loc = int i then 1 else 0)"
    by blast
  from len nth have "m = ?marks" by (intro nth_equalityI) simp_all
  with run have whole: "vtkInternalsForCells_Execute sl r ds arr = Inr (True, ?marks)" by simp
  from Cells_Execute_result [of sl r ds "[]"]
  have "vtkInternalsForCells_Execute sl r ds [] = Inr (True, [])" by auto
  with whole show ?thesis by simp
qed

text \<open>The theorem at a concrete input.\<close>

theorem cell_matcher_always_returns_true_witness:
  "GetNumberOfPoints (PointsDataSet True []) = 0 \<and>
   vtkInternalsForCells_Execute TetraLocations 0 (PointsDataSet True []) [5, 5]
     = Inr (True, [0, 0]) \<and>
   vtkInternalsForCells_Execute TetraLocations 0 TetraDataSet [5, 5] = Inr (True, [1, 0]) \<and>
   vtkInternalsForCells_Execute TetraLocations 0 TetraDataSet [] = Inr (True, [])"
proof -
  have none: "GetNumberOfPoints (PointsDataSet True ([] :: real list list)) = 0"
    by (simp add: PointsDataSet_def)
  have nocell: "FindCell (PointsDataSet True ([] :: real list list)) loc = - 1" for loc
    by (simp add: PointsDataSet_def)
  have locs: "Tuples TetraLocations = [[1/4, 1/4, 1/4], [5, 5, 5]]"
    by (simp add: TetraLocations_def)
  have inside: "FindCell TetraDataSet [1/4, 1/4, 1/4] = 0"
    and outside: "FindCell TetraDataSet [5, 5, 5] = - 1"
    by (simp_all add: TetraDataSet_def)
  have upt: "[0..<length [5, 5 :: 8 word]] = [0, 1]"
    by (simp add: upt_rec)
  from cell_matcher_always_returns_true [of TetraLocations 0 "PointsDataSet True []" "[5, 5]"]
  have one: "vtkInternalsForCells_Execute TetraLocations 0 (PointsDataSet True []) [5, 5]
      = Inr (True, [0, 0])"
    by (simp add: nocell upt)
  from cell_matcher_always_returns_true [of TetraLocations 0 TetraDataSet "[5, 5]"]
  have two: "vtkInternalsForCells_Execute TetraLocations 0 TetraDataSet [5, 5]
      = Inr (True, [1, 0])"
    by (simp add: locs inside outside upt)
  from cell_matcher_always_returns_true [of TetraLocations 0 TetraDataSet "[5, 5]"]
  have three: "vtkInternalsForCells_Execute TetraLocations 0 TetraDataSet [] = Inr (True, [])"
    by simp
  from none one two three show ?thesis by simp
qed

text \<open>
  Claim C9.  On a dataset with at least one point and an array of one entry per point,
  the result of the point matcher's Execute (flag and array) depends on the dataset,
  the selection list and the radius only, not on what the array held before; and
  running Execute again, on the array that the first run produced, gives the same flag
  and the same array.
\<close>

theorem point_matcher_is_deterministic:
  fixes D :: "'r list \<Rightarrow> 'r list \<Rightarrow> 'r::{times,ord}"
  assumes "0 < GetNumberOfPoints ds" and "int (length arr) = GetNumberOfPoints ds"
    and "length arr2 = length arr"
  shows "vtkInternalsForPoints_Execute D sl r ds arr2 = vtkInternalsForPoints_Execute D sl r ds arr \<and>
         (vtkInternalsForPoints_Execute D sl r ds arr = Inr (b, m) \<longrightarrow>
            vtkInternalsForPoints_Execute D sl r ds m = Inr (b, m))"
proof (intro conjI impI)
  show "vtkInternalsForPoints_Execute D sl r ds arr2 = vtkInternalsForPoints_Execute D sl r ds arr"
    using assms by (simp add: Points_Execute_exact)
next
  assume run: "vtkInternalsForPoints_Execute D sl r ds arr = Inr (b, m)"
  from Points_Execute_Inr [OF run assms(1)] have "length m = length arr" by simp
  with assms have "vtkInternalsForPoints_Execute D sl r ds m = vtkInternalsForPoints_Execute D sl r ds arr"
    by (simp add: Points_Execute_exact)
  with run show "vtkInternalsForPoints_Execute D sl r ds m = Inr (b, m)" by simp
qed

text \<open>The theorem at a concrete input.\<close>

theorem point_matcher_is_deterministic_witness:
  "0 < GetNumberOfPoints (PointsDataSet False ScenarioPoints) \<and>
   int (length [5, 5, 5, 5 :: 8 word]) = GetNumberOfPoints (PointsDataSet False ScenarioPoints) \<and>
   vtkInternalsForPoints_Execute Distance2BetweenPoints ScenarioLocations (1/10)
     (PointsDataSet False ScenarioPoints) [1, 1, 1, 1] = Inr (True, [0, 1, 0, 0]) \<and>
   vtkInternalsForPoints_Execute Distance2BetweenPoints ScenarioLocations (1/10)
     (PointsDataSet False ScenarioPoints) [0, 1, 0, 0] = Inr (True, [0, 1, 0, 0])"
proof -
  let ?ds = "PointsDataSet False ScenarioPoints"
  have some: "0 < GetNumberOfPoints ?ds"
    and len: "int (length [5, 5, 5, 5 :: 8 word]) = GetNumberOfPoints ?ds"
    by (simp_all add: PointsDataSet_def ScenarioPoints_def)
  have run: "vtkInternalsForPoints_Execute Distance2BetweenPoints ScenarioLocations (1/10) ?ds
      [5, 5, 5, 5] = Inr (True, [0, 1, 0, 0])"
    by code_simp
  from point_matcher_is_deterministic [OF some len, of "[1, 1, 1, 1]" Distance2BetweenPoints
      ScenarioLocations "1/10" True "[0, 1, 0, 0]"] run some len
  show ?thesis by simp
qed

text \<open>
  Claim C10.  Whatever the state of the selector, also with a matcher in place,
  \<open>ComputeSelectedElementsForBlock\<close> returns false and leaves the array as it was
  when the data object is not a dataset.  A matcher's Execute only runs on a data
  object that is a dataset, and then on that dataset.
\<close>

theorem non_dataset_input_is_rejected:
  "ComputeSelectedElementsForBlock D self (Some OtherDataObject) (Some arr) = Inr (False, arr) \<and>
   ComputeSelectedElementsForBlock D self (Some (DataSet ds)) (Some arr) =
     (case Internals self of
        None \<Rightarrow> Inr (False, arr)
      | Some internals \<Rightarrow> vtkInternals_Execute D internals ds arr)"
  by (simp add: ComputeSelectedElementsForBlock_def split: option.splits)

text \<open>The theorem at a concrete input.\<close>

theorem non_dataset_input_is_rejected_witness:
  "Internals (fst (Initialize ExampleDeclarations vtkLocationSelector_new PointNode ''mask''))
     = Some (vtkInternalsForPoints ScenarioLocations (1/10)) \<and>
   ComputeSelectedElementsForBlock Distance2BetweenPoints
     (fst (Initialize ExampleDeclarations vtkLocationSelector_new PointNode ''mask''))
     (Some OtherDataObject) (Some [5, 5, 5, 5]) = Inr (False, [5, 5, 5, 5])"
proof -
  have on: "Internals (fst (Initialize ExampleDeclarations vtkLocationSelector_new PointNode ''mask''))
     = Some (vtkInternalsForPoints ScenarioLocations (1/10))"
    by (simp add: Initialize_def PointNode_def ScenarioLocations_def GetNumberOfTuples_def
        GetNumberOfComponents_def ExampleDeclarations_def)
  with non_dataset_input_is_rejected [of Distance2BetweenPoints
      "fst (Initialize ExampleDeclarations vtkLocationSelector_new PointNode ''mask'')" "[5, 5, 5, 5]"]
  show ?thesis by simp
qed

end
